theory Spec2Isabelle
  imports Complex_Main "HOL-Library.Word"
begin

section \<open>Data model of the dashboard component\<close>

text \<open>
  The component \<open>Dashboard\<close> of \<open>src/components/Dashboard.tsx\<close> keeps seven slices of
  local state and a handful of asynchronous handlers that talk to the backend with
  \<open>fetch\<close>. The interfaces \<open>Job\<close> and \<open>PrinterStatus\<close> become records. A property that
  TypeScript declares as \<open>end_time?: string | null\<close> has three shapes, which the
  reconciler tells apart with \<open>=== null\<close>; they are kept apart here as well.
\<close>

datatype 'a nullable = Undefined | Null | Value 'a

record Job =
  job_id :: int
  file_name :: string
  status :: string
  start_time :: string
  end_time :: "string nullable"
  filament_used :: "real option"
  progress :: "real option"
  estimated_completion_time :: "real option"

record PrinterStatus =
  state :: string
  nozzle_temperature :: real
  bed_temperature :: real
  operational :: bool
  printing :: bool
  paused :: bool

record TemperatureSample =
  time :: string
  nozzle :: real
  bed :: real

record RatingDraft =
  quality :: string
  speed :: string
  feedback :: string
  jobId :: "int option"

text \<open>
  Text typed by the operator is a JavaScript string, a sequence of UTF-16 code units;
  \<open>trim\<close> looks at code units beyond Latin-1, so the command input keeps them.
\<close>

type_synonym jsstring = "16 word list"

record dashboard =
  printerData :: "PrinterStatus option"
  jobHistory :: "Job list"
  currentJob :: "Job option"
  temperatureData :: "TemperatureSample list"
  lastValidCommand :: "string option"
  nextValidCommand :: jsstring
  rating :: RatingDraft

definition initial_dashboard :: dashboard where
  "initial_dashboard =
     \<lparr>printerData = None, jobHistory = [], currentJob = None, temperatureData = [],
      lastValidCommand = None, nextValidCommand = [],
      rating = \<lparr>quality = [], speed = [], feedback = [], jobId = None\<rparr>\<rparr>"

definition PRINTER_STATUS_API :: string where
  "PRINTER_STATUS_API = ''http://localhost:5000/dashboard/printer-status''"

definition JOBS_API :: string where
  "JOBS_API = ''http://localhost:5000/dashboard/jobs''"

definition RATE_PRINT_API :: string where
  "RATE_PRINT_API = ''http://localhost:5000/dashboard/rate-job''"

definition PAUSE_PRINT_API :: string where
  "PAUSE_PRINT_API = ''http://localhost:5000/dashboard/pause''"

definition PREHEAT_NOZZLE_API :: string where
  "PREHEAT_NOZZLE_API = ''http://localhost:5000/dashboard/preheat''"

definition CONTINUE_PRINT_API :: string where
  "CONTINUE_PRINT_API = ''http://localhost:5000/dashboard/continue''"

definition CANCEL_PRINT_API :: string where
  "CANCEL_PRINT_API = ''http://localhost:5000/dashboard/cancel''"

definition LAST_VALID_API :: string where
  "LAST_VALID_API = ''http://localhost:5000/dashboard/last-valid''"

definition NEXT_VALID_API :: string where
  "NEXT_VALID_API = ''http://localhost:5000/dashboard/next-valid''"

section \<open>Effects, exceptions and the outcome of a request\<close>

text \<open>
  A handler does three things besides returning: it updates the state, it leaves a trace
  of observable effects (requests sent, \<open>alert\<close> boxes, console lines), and it may throw.
  An action therefore maps the state to a result (\<open>Inl\<close> an exception that left the
  action, \<open>Inr\<close> a value), the new state and the trace. What the backend answers is an
  input of the handler: \<open>Rejected\<close> is the promise of \<open>fetch\<close> rejecting (no connection),
  \<open>Resolved\<close> carries the flag \<open>response.ok\<close> and the parsed body, \<open>None\<close> when
  \<open>response.json()\<close> rejects. Each handler runs to its end in one step: the interleaving
  of other callbacks at an \<open>await\<close> is outside this model.
\<close>

datatype http_method = GET | POST

datatype request_body =
    NoBody
  | RatingBody "int option" string string string
  | CommandBody jsstring

datatype exn = TypeError string | Error string | SyntaxError string

datatype effect =
    Fetch http_method string request_body
  | Alert string
  | ConsoleError string exn
  | ConsoleLog string

datatype 'a response = Response (ok: bool) (json_body: "'a option")

datatype 'a fetch_outcome = Rejected | Resolved "'a response"

type_synonym 'a action = "dashboard \<Rightarrow> (exn + 'a) \<times> dashboard \<times> effect list"

definition ret :: "'a \<Rightarrow> 'a action" where
  "ret x = (\<lambda>s. (Inr x, s, []))"

definition throw :: "exn \<Rightarrow> 'a action" where
  "throw e = (\<lambda>s. (Inl e, s, []))"

definition bind :: "'a action \<Rightarrow> ('a \<Rightarrow> 'b action) \<Rightarrow> 'b action" where
  "bind m f = (\<lambda>s.
     case m s of
       (Inl e, s', fx) \<Rightarrow> (Inl e, s', fx)
     | (Inr x, s', fx) \<Rightarrow> (case f x s' of (r, s'', fx') \<Rightarrow> (r, s'', fx @ fx')))"

definition seq :: "'a action \<Rightarrow> 'b action \<Rightarrow> 'b action" where
  "seq m n = bind m (\<lambda>_. n)"

definition try_catch :: "'a action \<Rightarrow> (exn \<Rightarrow> 'a action) \<Rightarrow> 'a action" where
  "try_catch m h = (\<lambda>s.
     case m s of
       (Inl e, s', fx) \<Rightarrow> (case h e s' of (r, s'', fx') \<Rightarrow> (r, s'', fx @ fx'))
     | (Inr x, s', fx) \<Rightarrow> (Inr x, s', fx))"

definition emit :: "effect \<Rightarrow> unit action" where
  "emit e = (\<lambda>s. (Inr (), s, [e]))"

definition set_state :: "(dashboard \<Rightarrow> dashboard) \<Rightarrow> unit action" where
  "set_state f = (\<lambda>s. (Inr (), f s, []))"

definition await_fetch ::
  "http_method \<Rightarrow> string \<Rightarrow> request_body \<Rightarrow> 'a fetch_outcome \<Rightarrow> 'a response action" where
  "await_fetch m url b outcome = (\<lambda>s.
     case outcome of
       Rejected \<Rightarrow> (Inl (TypeError ''Failed to fetch''), s, [Fetch m url b])
     | Resolved r \<Rightarrow> (Inr r, s, [Fetch m url b]))"

definition await_json :: "'a response \<Rightarrow> 'a action" where
  "await_json r =
     (case json_body r of
        None \<Rightarrow> throw (SyntaxError ''Unexpected token'')
      | Some d \<Rightarrow> ret d)"

definition check_ok :: "'a response \<Rightarrow> string \<Rightarrow> unit action" where
  "check_ok r msg = (if \<not> ok r then throw (Error msg) else ret ())"

section \<open>Polling the printer status and the telemetry buffer\<close>

text \<open>
  \<open>Array.prototype.slice(start)\<close> with one argument: a negative start counts from the
  end and is clamped at the first element, a positive one is clamped at the length.
\<close>

definition slice_from :: "int \<Rightarrow> 'a list \<Rightarrow> 'a list" where
  "slice_from start xs =
     (let len = int (length xs);
          k = (if start < 0 then max (len + start) 0 else min start len)
      in drop (nat k) xs)"

text \<open>The updater handed to \<open>setTemperatureData\<close>: \<open>[...prevData.slice(-19), sample]\<close>.\<close>

definition appendSample :: "TemperatureSample list \<Rightarrow> TemperatureSample \<Rightarrow> TemperatureSample list" where
  "appendSample prevData sample = slice_from (- 19) prevData @ [sample]"

text \<open>
  \<open>fetchPrinterStatus\<close>; \<open>now\<close> is what \<open>new Date().toLocaleTimeString()\<close> returns when the
  sample is built.
\<close>

definition fetchPrinterStatus :: "PrinterStatus fetch_outcome \<Rightarrow> string \<Rightarrow> unit action" where
  "fetchPrinterStatus outcome now =
     try_catch
       (bind (await_fetch GET PRINTER_STATUS_API NoBody outcome) (\<lambda>response.
        seq (check_ok response ''Failed to fetch printer status'')
       (bind (await_json response) (\<lambda>data.
        seq (set_state (\<lambda>s. s\<lparr>printerData := Some data\<rparr>))
            (set_state (\<lambda>s. s\<lparr>temperatureData :=
               appendSample (temperatureData s)
                 \<lparr>time = now, nozzle = nozzle_temperature data, bed = bed_temperature data\<rparr>\<rparr>))))))
       (\<lambda>error. emit (ConsoleError ''Error fetching printer status:'' error))"

section \<open>Polling the job list and reconciling the current job\<close>

text \<open>
  \<open>jobs.sort((a, b) => new Date(b.start_time).getTime() - new Date(a.start_time).getTime())\<close>.
  What \<open>new Date(s).getTime()\<close> makes of a string is a parameter \<open>getTime\<close>: the
  milliseconds since the epoch, or \<open>None\<close> for the \<open>NaN\<close> of an invalid date. A comparator
  result of \<open>NaN\<close> counts as \<open>+0\<close> in the language's \<open>SortCompare\<close>.
  \<open>Array.prototype.sort\<close> is stable; it is modelled as a stable insertion sort. With a
  comparator that is not a consistent ordering (some date does not parse) the language
  leaves the order to the engine, and only the fact that the result is a rearrangement of
  the input is used below.
\<close>

definition compareStart :: "(string \<Rightarrow> int option) \<Rightarrow> Job \<Rightarrow> Job \<Rightarrow> int option" where
  "compareStart getTime a b =
     (case (getTime (start_time b), getTime (start_time a)) of
        (Some tb, Some ta) \<Rightarrow> Some (tb - ta)
      | _ \<Rightarrow> None)"

definition SortCompare :: "('a \<Rightarrow> 'a \<Rightarrow> int option) \<Rightarrow> 'a \<Rightarrow> 'a \<Rightarrow> int" where
  "SortCompare cmp x y = (case cmp x y of None \<Rightarrow> 0 | Some v \<Rightarrow> v)"

fun insert_sorted :: "('a \<Rightarrow> 'a \<Rightarrow> int option) \<Rightarrow> 'a \<Rightarrow> 'a list \<Rightarrow> 'a list" where
  "insert_sorted cmp x [] = [x]"
| "insert_sorted cmp x (y # ys) =
     (if SortCompare cmp x y \<le> 0 then x # y # ys else y # insert_sorted cmp x ys)"

definition js_sort :: "('a \<Rightarrow> 'a \<Rightarrow> int option) \<Rightarrow> 'a list \<Rightarrow> 'a list" where
  "js_sort cmp xs = foldr (insert_sorted cmp) xs []"

definition isActiveStatus :: "string \<Rightarrow> bool" where
  "isActiveStatus st = (st = ''STARTED'' \<or> st = ''RESUMED'' \<or> st = ''PAUSED'')"

text \<open>The predicate of the first \<open>jobs.find\<close>: an active status and \<open>job.end_time === null\<close>.\<close>

definition isOngoing :: "Job \<Rightarrow> bool" where
  "isOngoing job = (isActiveStatus (status job) \<and> end_time job = Null)"

definition isTerminalStatus :: "string \<Rightarrow> bool" where
  "isTerminalStatus st = (st = ''FINISHED'' \<or> st = ''FAILED'')"

text \<open>
  The block guarded by \<open>!ongoingJob && currentJob && (active status)\<close>: it looks the tracked
  job up by id and, when that job has finished or failed, logs and assigns \<open>undefined\<close> to
  \<open>ongoingJob\<close>. The result is the value of \<open>ongoingJob\<close> after the block.
\<close>

definition checkFinished :: "Job list \<Rightarrow> Job option \<Rightarrow> Job option \<Rightarrow> Job option action" where
  "checkFinished jobs ongoingJob seenCurrentJob =
     (case (ongoingJob, seenCurrentJob) of
        (None, Some c) \<Rightarrow>
          if isActiveStatus (status c) then
            (case find (\<lambda>job. job_id job = job_id c) jobs of
               Some updatedJob \<Rightarrow>
                 if isTerminalStatus (status updatedJob)
                 then seq (emit (ConsoleLog ''Print job completed! Resetting live metrics.''))
                          (ret None)
                 else ret ongoingJob
             | None \<Rightarrow> ret ongoingJob)
          else ret ongoingJob
      | _ \<Rightarrow> ret ongoingJob)"

text \<open>
  \<open>fetchJobs\<close>. The handler reads \<open>currentJob\<close> from the closure of the render that created
  it, not from the state at the time of the poll; \<open>seenCurrentJob\<close> is that value. The
  timer of \<open>useEffect(..., [])\<close> keeps the closure of the first render, where it is \<open>null\<close>;
  the theorems below hold for every value of it.
\<close>

definition fetchJobs ::
  "(string \<Rightarrow> int option) \<Rightarrow> Job option \<Rightarrow> Job list fetch_outcome \<Rightarrow> unit action" where
  "fetchJobs getTime seenCurrentJob outcome =
     try_catch
       (bind (await_fetch GET JOBS_API NoBody outcome) (\<lambda>response.
        seq (check_ok response ''Failed to fetch jobs'')
       (bind (await_json response) (\<lambda>fetched.
        let jobs = js_sort (compareStart getTime) fetched in
        seq (set_state (\<lambda>s. s\<lparr>jobHistory := jobs\<rparr>))
       (bind (checkFinished jobs (find isOngoing jobs) seenCurrentJob) (\<lambda>ongoingJob.
        set_state (\<lambda>s. s\<lparr>currentJob := ongoingJob\<rparr>)))))))
       (\<lambda>error. emit (ConsoleError ''Error fetching jobs:'' error))"

section \<open>Polling the last valid command\<close>

record LastValid =
  command :: string

definition fetchLastValidCommand :: "LastValid fetch_outcome \<Rightarrow> unit action" where
  "fetchLastValidCommand outcome =
     try_catch
       (bind (await_fetch GET LAST_VALID_API NoBody outcome) (\<lambda>response.
        seq (check_ok response ''Failed to fetch last valid command'')
       (bind (await_json response) (\<lambda>data.
        set_state (\<lambda>s. s\<lparr>lastValidCommand := Some (command data)\<rparr>)))))
       (\<lambda>error.
        seq (emit (ConsoleError ''Error fetching last valid command:'' error))
            (set_state (\<lambda>s. s\<lparr>lastValidCommand := Some ''Error fetching command.''\<rparr>)))"

section \<open>The command dispatcher\<close>

text \<open>
  \<open>sendCommand\<close>: \<open>post\<close> is the outcome of the POST, \<open>refresh\<close> and \<open>now\<close> are the inputs of
  the status poll that a successful command starts.
\<close>

definition sendCommand ::
  "string \<Rightarrow> string \<Rightarrow> unit fetch_outcome \<Rightarrow> PrinterStatus fetch_outcome \<Rightarrow> string \<Rightarrow> unit action" where
  "sendCommand endpoint successMessage post refresh now =
     try_catch
       (bind (await_fetch POST endpoint NoBody post) (\<lambda>response.
        seq (check_ok response ''Command failed'')
       (seq (emit (Alert successMessage))
            (fetchPrinterStatus refresh now))))
       (\<lambda>error.
        seq (emit (ConsoleError ''Error sending command:'' error))
            (emit (Alert ''Command failed. Check logs.'')))"

text \<open>\<open>!rating.jobId\<close>: \<open>null\<close> and the number 0 are falsy.\<close>

definition noJobId :: "int option \<Rightarrow> bool" where
  "noJobId j = (case j of None \<Rightarrow> True | Some i \<Rightarrow> i = 0)"

text \<open>
  \<open>submitRating\<close>. The payload carries \<open>parseFloat\<close> of the quality and speed texts; the
  request body records the texts themselves.
\<close>

definition submitRating :: "unit fetch_outcome \<Rightarrow> unit action" where
  "submitRating post = (\<lambda>s0.
     (let r = rating s0 in
      if noJobId (jobId r) then emit (Alert ''No job selected for rating.'')
      else
        try_catch
          (bind (await_fetch POST RATE_PRINT_API
                   (RatingBody (jobId r) (quality r) (speed r) (feedback r)) post) (\<lambda>response.
           seq (check_ok response ''Failed to submit rating'')
          (seq (emit (Alert ''Print rating submitted successfully!''))
               (set_state (\<lambda>s. s\<lparr>rating :=
                  \<lparr>quality = [], speed = [], feedback = [], jobId = jobId r\<rparr>\<rparr>)))))
          (\<lambda>error.
           seq (emit (ConsoleError ''Error submitting print rating:'' error))
               (emit (Alert ''Failed to submit rating.'')))) s0)"

text \<open>
  \<open>String.prototype.trim\<close> strips the language's white space and line terminators: TAB,
  LF, VT, FF, CR, SPACE, NBSP, the space separators of Unicode, LS, PS and the BOM.
\<close>

definition isWhiteSpace :: "16 word \<Rightarrow> bool" where
  "isWhiteSpace c =
     (c = 0x9 \<or> c = 0xA \<or> c = 0xB \<or> c = 0xC \<or> c = 0xD \<or> c = 0x20 \<or> c = 0xA0
      \<or> c = 0x1680 \<or> (0x2000 \<le> c \<and> c \<le> 0x200A) \<or> c = 0x2028 \<or> c = 0x2029
      \<or> c = 0x202F \<or> c = 0x205F \<or> c = 0x3000 \<or> c = 0xFEFF)"

definition trim :: "jsstring \<Rightarrow> jsstring" where
  "trim str = rev (dropWhile isWhiteSpace (rev (dropWhile isWhiteSpace str)))"

definition submitNextValidCommand :: "unit fetch_outcome \<Rightarrow> unit action" where
  "submitNextValidCommand post = (\<lambda>s0.
     (if trim (nextValidCommand s0) = [] then emit (Alert ''Please enter a valid command.'')
      else
        try_catch
          (bind (await_fetch POST NEXT_VALID_API (CommandBody (nextValidCommand s0)) post)
             (\<lambda>response.
           seq (check_ok response ''Failed to submit next valid command'')
          (seq (emit (Alert ''Next valid command submitted successfully!''))
               (set_state (\<lambda>s. s\<lparr>nextValidCommand := []\<rparr>)))))
          (\<lambda>error.
           seq (emit (ConsoleError ''Error submitting next valid command:'' error))
               (emit (Alert ''Failed to submit next valid command.'')))) s0)"

section \<open>The control buttons\<close>

text \<open>
  The four buttons rendered when \<open>printerData\<close> is loaded, with their \<open>disabled\<close> property
  and the arguments their \<open>onClick\<close> passes to \<open>sendCommand\<close>. The preheat button has no
  \<open>disabled\<close> property, which the toolkit reads as \<open>false\<close>. Without a status the view shows
  \<open>Loading printer status...\<close> and no button.
\<close>

record Button =
  label :: string
  disabled :: bool
  endpoint :: string
  successMessage :: string

definition controlButtons :: "PrinterStatus option \<Rightarrow> Button list" where
  "controlButtons pd =
     (case pd of
        None \<Rightarrow> []
      | Some p \<Rightarrow>
          [\<lparr>label = ''Pause Print'', disabled = (\<not> printing p \<or> paused p),
            endpoint = PAUSE_PRINT_API, successMessage = ''Print paused.''\<rparr>,
           \<lparr>label = ''Preheat Nozzle'', disabled = False,
            endpoint = PREHEAT_NOZZLE_API, successMessage = ''Nozzle preheating started.''\<rparr>,
           \<lparr>label = ''Continue Print'', disabled = (\<not> paused p),
            endpoint = CONTINUE_PRINT_API, successMessage = ''Print resumed.''\<rparr>,
           \<lparr>label = ''Cancel Print'', disabled = (\<not> printing p \<and> \<not> paused p),
            endpoint = CANCEL_PRINT_API, successMessage = ''Print canceled.''\<rparr>])"

definition enabled :: "string \<Rightarrow> PrinterStatus option \<Rightarrow> bool option" where
  "enabled name pd =
     map_option (\<lambda>b. \<not> disabled b) (find (\<lambda>b. label b = name) (controlButtons pd))"

section \<open>Formatting a duration\<close>

text \<open>
  \<open>formatDuration\<close> on integer-valued numbers (\<open>None\<close> is \<open>undefined\<close>). \<open>Math.floor\<close> of a
  quotient is the floor division of HOL; the remainder operator of the language takes the
  sign of the dividend. Up to \<open>Number.MAX_SAFE_INTEGER\<close> the floating-point quotient and
  remainder have the same floor as the exact ones and \<open>toString\<close> prints plain decimal
  digits; fractions, \<open>NaN\<close> and larger magnitudes are outside this model.
\<close>

definition digit_char :: "nat \<Rightarrow> char" where
  "digit_char d = ''0123456789'' ! d"

fun digits :: "nat \<Rightarrow> string" where
  "digits n = (if n < 10 then [digit_char n] else digits (n div 10) @ [digit_char (n mod 10)])"

declare digits.simps [simp del]

definition toString :: "int \<Rightarrow> string" where
  "toString i = (if i < 0 then CHR ''-'' # digits (nat (- i)) else digits (nat i))"

definition padStart :: "nat \<Rightarrow> char \<Rightarrow> string \<Rightarrow> string" where
  "padStart targetLength c str = replicate (targetLength - length str) c @ str"

definition js_rem :: "int \<Rightarrow> int \<Rightarrow> int" where
  "js_rem a b = sgn a * (\<bar>a\<bar> mod \<bar>b\<bar>)"

definition MAX_SAFE_INTEGER :: int where
  "MAX_SAFE_INTEGER = 9007199254740991"

definition formatDuration :: "int option \<Rightarrow> string" where
  "formatDuration seconds =
     (case seconds of
        None \<Rightarrow> ''N/A''
      | Some s \<Rightarrow>
          if s = 0 then ''N/A''
          else
            (let hrs = s div 3600;
                 mins = js_rem s 3600 div 60;
                 secs = js_rem s 60
             in padStart 2 CHR ''0'' (toString hrs) @ '':'' @
                padStart 2 CHR ''0'' (toString mins) @ '':'' @
                padStart 2 CHR ''0'' (toString secs)))"

text \<open>Reading a string of decimal digits back, to say what a formatted field denotes.\<close>

definition is_digit :: "char \<Rightarrow> bool" where
  "is_digit c = (c \<in> set ''0123456789'')"

definition digit_value :: "char \<Rightarrow> nat" where
  "digit_value c = of_char c - 48"

definition decimal_value :: "string \<Rightarrow> nat" where
  "decimal_value str = foldl (\<lambda>acc c. 10 * acc + digit_value c) 0 str"

section \<open>Vocabulary of the statements and sample data\<close>

text \<open>
  \<open>startsNoLaterThan getTime k j\<close>: both start times parse and that of \<open>k\<close> is not after
  that of \<open>j\<close>.
\<close>

definition startsNoLaterThan :: "(string \<Rightarrow> int option) \<Rightarrow> Job \<Rightarrow> Job \<Rightarrow> bool" where
  "startsNoLaterThan getTime k j =
     (case (getTime (start_time k), getTime (start_time j)) of
        (Some tk, Some tj) \<Rightarrow> tk \<le> tj
      | _ \<Rightarrow> False)"

definition allDatesValid :: "(string \<Rightarrow> int option) \<Rightarrow> Job list \<Rightarrow> bool" where
  "allDatesValid getTime jobs = list_all (\<lambda>j. getTime (start_time j) \<noteq> None) jobs"

definition sample_getTime :: "string \<Rightarrow> int option" where
  "sample_getTime str =
     (if str = ''2024-01-01T10:00:00Z'' then Some 1704103200000
      else if str = ''2024-01-02T10:00:00Z'' then Some 1704189600000
      else if str = ''2024-01-03T10:00:00Z'' then Some 1704276000000
      else None)"

definition job_finished :: Job where
  "job_finished =
     \<lparr>job_id = 1, file_name = ''bracket.gcode'', status = ''FINISHED'',
      start_time = ''2024-01-01T10:00:00Z'', end_time = Value ''2024-01-01T12:00:00Z'',
      filament_used = Some 120, progress = Some 100, estimated_completion_time = Some 7200\<rparr>"

definition job_started :: Job where
  "job_started =
     \<lparr>job_id = 2, file_name = ''gear.gcode'', status = ''STARTED'',
      start_time = ''2024-01-02T10:00:00Z'', end_time = Null,
      filament_used = None, progress = Some 40, estimated_completion_time = Some 3600\<rparr>"

definition job_paused :: Job where
  "job_paused =
     \<lparr>job_id = 3, file_name = ''vase.gcode'', status = ''PAUSED'',
      start_time = ''2024-01-03T10:00:00Z'', end_time = Null,
      filament_used = None, progress = Some 10, estimated_completion_time = None\<rparr>"

definition job_without_end_time :: Job where
  "job_without_end_time =
     \<lparr>job_id = 4, file_name = ''clip.gcode'', status = ''STARTED'',
      start_time = ''2024-01-03T10:00:00Z'', end_time = Undefined,
      filament_used = None, progress = None, estimated_completion_time = None\<rparr>"

definition job_started_finished :: Job where
  "job_started_finished = job_started\<lparr>status := ''FINISHED'', end_time := Value ''2024-01-02T11:00:00Z''\<rparr>"

text \<open>
  The candidate predicate in the words of the specification: an active status and an
  \<open>end_time\<close> that is absent, be it \<open>null\<close> or a missing property.
\<close>

definition spec_isCandidate :: "Job \<Rightarrow> bool" where
  "spec_isCandidate job =
     (isActiveStatus (status job) \<and> (case end_time job of Value t \<Rightarrow> False | _ \<Rightarrow> True))"

text \<open>
  The reconciler in the words of the specification: the first candidate of the list; if
  there is none and the previously tracked job was in an active status, that job is looked
  up by id in the new list and the active job is cleared when its status has become
  FINISHED or FAILED; otherwise the previous reference is retained unchanged.
\<close>

definition spec_reconcile :: "Job list \<Rightarrow> Job option \<Rightarrow> Job option" where
  "spec_reconcile jobs previous =
     (case find spec_isCandidate jobs of
        Some candidate \<Rightarrow> Some candidate
      | None \<Rightarrow>
          (case previous of
             None \<Rightarrow> previous
           | Some tracked \<Rightarrow>
               if isActiveStatus (status tracked) then
                 (case find (\<lambda>job. job_id job = job_id tracked) jobs of
                    Some updated \<Rightarrow>
                      if isTerminalStatus (status updated) then None else previous
                  | None \<Rightarrow> previous)
               else previous))"

definition tracking_started :: dashboard where
  "tracking_started = initial_dashboard\<lparr>jobHistory := [job_started], currentJob := Some job_started\<rparr>"

text \<open>
  A POST has failed when the request is rejected or the status is not a success; a polled
  GET also when the body does not parse. \<open>caught\<close> is the exception that reaches the
  \<open>catch\<close> block of the handler in each case.
\<close>

definition requestFailed :: "'a fetch_outcome \<Rightarrow> bool" where
  "requestFailed outcome =
     (case outcome of Rejected \<Rightarrow> True | Resolved r \<Rightarrow> \<not> ok r)"

definition pollFailed :: "'a fetch_outcome \<Rightarrow> bool" where
  "pollFailed outcome =
     (case outcome of Rejected \<Rightarrow> True | Resolved r \<Rightarrow> \<not> ok r \<or> json_body r = None)"

definition caught :: "'a fetch_outcome \<Rightarrow> string \<Rightarrow> exn" where
  "caught outcome msg =
     (case outcome of
        Rejected \<Rightarrow> TypeError ''Failed to fetch''
      | Resolved r \<Rightarrow> if \<not> ok r then Error msg else SyntaxError ''Unexpected token'')"

definition isRequest :: "effect \<Rightarrow> bool" where
  "isRequest e = (case e of Fetch m u b \<Rightarrow> True | _ \<Rightarrow> False)"

definition completionLog :: effect where
  "completionLog = ConsoleLog ''Print job completed! Resetting live metrics.''"

definition sample_at :: "nat \<Rightarrow> TemperatureSample" where
  "sample_at n = \<lparr>time = ''10:00:00'', nozzle = 200 + real n, bed = 60\<rparr>"

definition status_printing :: PrinterStatus where
  "status_printing =
     \<lparr>state = ''Printing'', nozzle_temperature = 210, bed_temperature = 60,
      operational = True, printing = True, paused = False\<rparr>"

definition status_paused :: PrinterStatus where
  "status_paused =
     \<lparr>state = ''Paused'', nozzle_temperature = 180, bed_temperature = 60,
      operational = True, printing = False, paused = True\<rparr>"

definition dashboard_printing :: dashboard where
  "dashboard_printing = initial_dashboard\<lparr>printerData := Some status_printing\<rparr>"

definition dashboard_rating_unselected :: dashboard where
  "dashboard_rating_unselected =
     initial_dashboard\<lparr>rating := \<lparr>quality = ''8'', speed = ''7'', feedback = ''clean walls'', jobId = None\<rparr>\<rparr>"

definition dashboard_rating_selected :: dashboard where
  "dashboard_rating_selected =
     initial_dashboard\<lparr>rating := \<lparr>quality = ''8'', speed = ''7'', feedback = ''clean walls'', jobId = Some 2\<rparr>\<rparr>"

definition post_ok :: "unit fetch_outcome" where
  "post_ok = Resolved (Response True None)"

definition dashboard_command_blank :: dashboard where
  "dashboard_command_blank = initial_dashboard\<lparr>nextValidCommand := [0x20, 0x9, 0xA0, 0x3000]\<rparr>"

definition dashboard_command_G28 :: dashboard where
  "dashboard_command_G28 = initial_dashboard\<lparr>nextValidCommand := [0x20, 0x47, 0x32, 0x38]\<rparr>"

section \<open>The telemetry buffer\<close>

lemmas action_defs = try_catch_def bind_def seq_def await_fetch_def check_ok_def
  await_json_def ret_def throw_def emit_def set_state_def

lemma slice_from_19: "slice_from (- 19) xs = drop (length xs - 19) xs"
  by (simp add: slice_from_def Let_def nat_diff_distrib' max_def)

lemma length_appendSample: "length (appendSample buf x) = min (length buf) 19 + 1"
  by (simp add: appendSample_def slice_from_19)

lemma foldl_appendSample_last20:
  "foldl appendSample [] xs = drop (length xs - 20) xs"
proof (induction xs rule: rev_induct)
  case Nil
  show ?case by simp
next
  case (snoc x xs)
  have "drop (length (drop (length xs - 20) xs) - 19) (drop (length xs - 20) xs)
        = drop (Suc (length xs) - 20) xs"
    by (simp add: min_def) (rule arg_cong [where f = "\<lambda>n. drop n xs"], arith)
  with snoc show ?case
    by (simp add: appendSample_def slice_from_19 Suc_diff_le)
qed

lemma fetchPrinterStatus_success:
  "fetchPrinterStatus (Resolved (Response True (Some d))) now s =
     (Inr (),
      s\<lparr>printerData := Some d,
        temperatureData := appendSample (temperatureData s)
           \<lparr>time = now, nozzle = nozzle_temperature d, bed = bed_temperature d\<rparr>\<rparr>,
      [Fetch GET PRINTER_STATUS_API NoBody])"
  by (simp add: fetchPrinterStatus_def try_catch_def bind_def seq_def await_fetch_def
      check_ok_def await_json_def ret_def set_state_def)

text \<open>
  Claim C4. Every successful status poll passes the buffer through \<open>appendSample\<close>. Whatever
  the buffer was, it holds at most 20 samples after an append, hence after every non-empty
  sequence of appends; from the empty buffer of a fresh component any sequence of appends
  leaves the last 20 appended samples in append order, so 25 appends leave the 6th to the
  25th sample.
\<close>

theorem telemetry_buffer_bounded:
  "temperatureData (fst (snd (fetchPrinterStatus (Resolved (Response True (Some d))) now s)))
     = appendSample (temperatureData s)
         \<lparr>time = now, nozzle = nozzle_temperature d, bed = bed_temperature d\<rparr>
   \<and> length (appendSample buf x) \<le> 20
   \<and> length (foldl appendSample [] xs) \<le> 20
   \<and> foldl appendSample [] xs = drop (length xs - 20) xs
   \<and> (length xs = 25 \<longrightarrow> foldl appendSample [] xs = drop 5 xs \<and> length (foldl appendSample [] xs) = 20)"
proof -
  have a: "length (appendSample buf x) \<le> 20"
    by (simp add: length_appendSample)
  have b: "length (foldl appendSample [] xs) \<le> 20"
    by (simp add: foldl_appendSample_last20)
  show ?thesis
    using a b by (simp add: fetchPrinterStatus_success foldl_appendSample_last20)
qed

theorem telemetry_buffer_bounded_witness:
  "length (map sample_at [0..<25]) = 25
   \<and> foldl appendSample [] (map sample_at [0..<25]) = map sample_at [5..<25]
   \<and> length (foldl appendSample [] (map sample_at [0..<25])) = 20"
  using telemetry_buffer_bounded [where xs = "map sample_at [0..<25]"]
  by (simp add: drop_map)

section \<open>The job reconciler\<close>

lemma set_insert_sorted: "set (insert_sorted cmp x xs) = insert x (set xs)"
  by (induction xs) auto

lemma set_js_sort: "set (js_sort cmp xs) = set xs"
  by (induction xs) (simp_all add: js_sort_def set_insert_sorted)

lemma sorted_insert_sorted:
  assumes "getTime (start_time x) \<noteq> None" "\<forall>j\<in>set xs. getTime (start_time j) \<noteq> None"
    and "sorted_wrt (\<lambda>a b. startsNoLaterThan getTime b a) xs"
  shows "sorted_wrt (\<lambda>a b. startsNoLaterThan getTime b a) (insert_sorted (compareStart getTime) x xs)"
  using assms
proof (induction xs)
  case Nil
  then show ?case by simp
next
  case (Cons y ys)
  then show ?case
    by (auto simp: set_insert_sorted SortCompare_def compareStart_def startsNoLaterThan_def
        split: option.splits)
qed

lemma sorted_js_sort:
  "\<forall>j\<in>set xs. getTime (start_time j) \<noteq> None \<Longrightarrow>
   sorted_wrt (\<lambda>a b. startsNoLaterThan getTime b a) (js_sort (compareStart getTime) xs)"
proof (induction xs)
  case Nil
  then show ?case by (simp add: js_sort_def)
next
  case (Cons x xs)
  have "sorted_wrt (\<lambda>a b. startsNoLaterThan getTime b a)
          (insert_sorted (compareStart getTime) x (js_sort (compareStart getTime) xs))"
    using Cons by (intro sorted_insert_sorted) (simp_all add: set_js_sort)
  then show ?case by (simp add: js_sort_def)
qed

lemma find_first_of_sorted:
  "find P ys = Some j \<Longrightarrow> sorted_wrt R ys \<Longrightarrow> k \<in> set ys \<Longrightarrow> P k \<Longrightarrow> k = j \<or> R j k"
  by (induction ys) (auto split: if_splits)

lemma find_Some_mem: "find P ys = Some j \<Longrightarrow> j \<in> set ys \<and> P j"
  by (induction ys) (auto split: if_splits)

lemma find_None_set: "find P ys = None \<longleftrightarrow> (\<forall>y\<in>set ys. \<not> P y)"
  by (induction ys) auto

lemma checkFinished_value:
  "fst (checkFinished jobs og seen s) = Inr og \<and> fst (snd (checkFinished jobs og seen s)) = s"
  by (cases og; cases seen) (auto simp: checkFinished_def action_defs split: option.splits)

lemma fetchJobs_success:
  "fetchJobs getTime seen (Resolved (Response True (Some fetched))) s =
     (Inr (),
      s\<lparr>jobHistory := js_sort (compareStart getTime) fetched,
        currentJob := find isOngoing (js_sort (compareStart getTime) fetched)\<rparr>,
      Fetch GET JOBS_API NoBody #
      snd (snd (checkFinished (js_sort (compareStart getTime) fetched)
                 (find isOngoing (js_sort (compareStart getTime) fetched)) seen
                 (s\<lparr>jobHistory := js_sort (compareStart getTime) fetched\<rparr>))))"
proof -
  obtain fx where c: "checkFinished (js_sort (compareStart getTime) fetched)
                 (find isOngoing (js_sort (compareStart getTime) fetched)) seen
                 (s\<lparr>jobHistory := js_sort (compareStart getTime) fetched\<rparr>)
       = (Inr (find isOngoing (js_sort (compareStart getTime) fetched)),
          s\<lparr>jobHistory := js_sort (compareStart getTime) fetched\<rparr>, fx)"
    using checkFinished_value
    by (metis prod.collapse)
  show ?thesis
    by (simp add: fetchJobs_def try_catch_def bind_def seq_def await_fetch_def check_ok_def
        await_json_def ret_def set_state_def Let_def c)
qed

text \<open>
  Claim C1, as amended. After a successful poll the current job is an option, so at most
  one job is selected. It is \<open>None\<close> exactly when no fetched job has an active status
  together with an \<open>end_time\<close> that is \<open>null\<close>. When it is \<open>Some j\<close>, the job \<open>j\<close> is one of
  the fetched jobs and satisfies that predicate, and if every \<open>start_time\<close> of the list
  parses as a date, no fetched job satisfying the predicate starts later than \<open>j\<close>.
\<close>

theorem reconciler_selects_most_recent_ongoing:
  assumes "outcome = Resolved (Response True (Some fetched))"
    and "s' = fst (snd (fetchJobs getTime seen outcome s))"
  shows "(currentJob s' = None \<longleftrightarrow> (\<forall>j\<in>set fetched. \<not> isOngoing j))
       \<and> (\<forall>j. currentJob s' = Some j \<longrightarrow>
             j \<in> set fetched \<and> isOngoing j
             \<and> (allDatesValid getTime fetched \<longrightarrow>
                  (\<forall>k\<in>set fetched. isOngoing k \<longrightarrow> startsNoLaterThan getTime k j)))"
proof -
  let ?jobs = "js_sort (compareStart getTime) fetched"
  have cur: "currentJob s' = find isOngoing ?jobs"
    using assms by (simp add: fetchJobs_success)
  have none: "currentJob s' = None \<longleftrightarrow> (\<forall>j\<in>set fetched. \<not> isOngoing j)"
    by (simp add: cur find_None_set set_js_sort)
  have some: "j \<in> set fetched \<and> isOngoing j
             \<and> (allDatesValid getTime fetched \<longrightarrow>
                  (\<forall>k\<in>set fetched. isOngoing k \<longrightarrow> startsNoLaterThan getTime k j))"
    if j: "currentJob s' = Some j" for j
  proof -
    have f: "find isOngoing ?jobs = Some j" using j cur by simp
    have mem: "j \<in> set fetched \<and> isOngoing j"
      using find_Some_mem [OF f] by (simp add: set_js_sort)
    have recent: "startsNoLaterThan getTime k j"
      if valid: "allDatesValid getTime fetched" and k: "k \<in> set fetched" "isOngoing k" for k
    proof -
      have v: "\<forall>j\<in>set fetched. getTime (start_time j) \<noteq> None"
        using valid by (simp add: allDatesValid_def list_all_iff)
      have "k = j \<or> startsNoLaterThan getTime k j"
        using find_first_of_sorted [OF f sorted_js_sort [OF v], of k] k
        by (simp add: set_js_sort)
      moreover have "startsNoLaterThan getTime j j"
        using v mem by (auto simp: startsNoLaterThan_def split: option.splits)
      ultimately show ?thesis by blast
    qed
    show ?thesis using mem recent by blast
  qed
  show ?thesis using none some by blast
qed

lemma js_sort_sample:
  "js_sort (compareStart sample_getTime) [job_finished, job_started, job_paused]
     = [job_paused, job_started, job_finished]"
  by (simp add: js_sort_def SortCompare_def compareStart_def sample_getTime_def
      job_finished_def job_started_def job_paused_def)

theorem reconciler_selects_most_recent_ongoing_witness:
  "currentJob (fst (snd (fetchJobs sample_getTime None
      (Resolved (Response True (Some [job_finished, job_started, job_paused])))
      initial_dashboard))) = Some job_paused
   \<and> job_paused \<in> set [job_finished, job_started, job_paused]
   \<and> isOngoing job_paused
   \<and> allDatesValid sample_getTime [job_finished, job_started, job_paused]
   \<and> isOngoing job_started
   \<and> startsNoLaterThan sample_getTime job_started job_paused"
proof -
  have sel: "currentJob (fst (snd (fetchJobs sample_getTime None
      (Resolved (Response True (Some [job_finished, job_started, job_paused])))
      initial_dashboard))) = Some job_paused"
    by (simp add: fetchJobs_success js_sort_sample)
      (simp add: isOngoing_def isActiveStatus_def job_paused_def)
  have valid: "allDatesValid sample_getTime [job_finished, job_started, job_paused]"
    by (simp add: allDatesValid_def sample_getTime_def
        job_finished_def job_started_def job_paused_def)
  have og: "isOngoing job_started"
    by (simp add: isOngoing_def isActiveStatus_def job_started_def)
  show ?thesis
    using reconciler_selects_most_recent_ongoing [OF refl refl, of sample_getTime None
        "[job_finished, job_started, job_paused]" initial_dashboard] sel valid og
    by simp
qed

text \<open>
  The claim as written speaks of an \<open>end_time\<close> that is absent. A job object without the
  property \<open>end_time\<close> has an active status and no end time, and the reconciler does not
  select it: \<open>undefined === null\<close> is false.
\<close>

theorem undefined_end_time_not_selected:
  "spec_isCandidate job_without_end_time
   \<and> currentJob (fst (snd (fetchJobs sample_getTime None
        (Resolved (Response True (Some [job_without_end_time]))) initial_dashboard))) = None"
  by (simp add: fetchJobs_success js_sort_def isOngoing_def spec_isCandidate_def
      isActiveStatus_def job_without_end_time_def)

text \<open>
  What \<open>fetchJobs\<close> does when a successful poll's list has no job with an active status and
  \<open>end_time\<close> \<open>null\<close>: the block guarded by \<open>!ongoingJob && currentJob && ...\<close> can only log
  and assign \<open>undefined\<close> to a variable that already is \<open>undefined\<close>, and
  \<open>setCurrentJob(ongoingJob || null)\<close> then clears the current job in every case.
\<close>

lemma fetchJobs_without_candidate:
  assumes "outcome = Resolved (Response True (Some fetched))"
    and "\<forall>j\<in>set fetched. \<not> isOngoing j"
  shows "fst (fetchJobs getTime seen outcome s) = Inr ()
       \<and> currentJob (fst (snd (fetchJobs getTime seen outcome s))) = None"
  using assms by (simp add: fetchJobs_success find_None_set set_js_sort)

text \<open>
  Claim C2. The specification has the reconciler retain the previously tracked job when
  the new list holds no candidate and the tracked job has not become FINISHED or FAILED
  there, as on a transient empty list; \<open>spec_reconcile\<close> returns the tracked job
  \<open>job_started\<close> on the empty list. The code does not retain it: with \<open>job_started\<close> tracked
  and active, a successful poll that delivers the empty list leaves the current job \<open>null\<close>,
  both when the closure sees the tracked job and when it sees the \<open>null\<close> of the first
  render. The comments of the guarded block announce a reset only when the tracked job has
  finished; the assignment in it has no effect and the reset happens always.
\<close>

theorem previous_job_not_retained:
  "isActiveStatus (status job_started)
   \<and> currentJob tracking_started = Some job_started
   \<and> spec_reconcile [] (currentJob tracking_started) = Some job_started
   \<and> currentJob (fst (snd (fetchJobs sample_getTime (Some job_started)
        (Resolved (Response True (Some []))) tracking_started))) = None
   \<and> currentJob (fst (snd (fetchJobs sample_getTime None
        (Resolved (Response True (Some []))) tracking_started))) = None"
  by (simp add: fetchJobs_success js_sort_def tracking_started_def isActiveStatus_def
      job_started_def spec_reconcile_def)

lemma find_by_id_distinct:
  assumes "distinct (map job_id jobs)" "u \<in> set jobs" "job_id u = i"
  shows "find (\<lambda>job. job_id job = i) jobs = Some u"
  using assms by (induction jobs) (auto simp: image_iff)

lemma distinct_insert_sorted:
  "distinct (map f (insert_sorted cmp x xs)) = distinct (map f (x # xs))"
  by (induction xs) (auto simp: set_insert_sorted)

lemma distinct_js_sort: "distinct (map f (js_sort cmp xs)) = distinct (map f xs)"
  by (induction xs) (simp_all add: js_sort_def distinct_insert_sorted set_js_sort [unfolded js_sort_def])

lemma fetchJobs_effects_completed:
  assumes "isActiveStatus (status c)" "\<forall>j\<in>set fetched. \<not> isOngoing j"
    and "distinct (map job_id fetched)" "u \<in> set fetched" "job_id u = job_id c"
    and "isTerminalStatus (status u)"
  shows "snd (snd (fetchJobs getTime (Some c) (Resolved (Response True (Some fetched))) s))
         = [Fetch GET JOBS_API NoBody, completionLog]"
proof -
  let ?jobs = "js_sort (compareStart getTime) fetched"
  have n: "find isOngoing ?jobs = None"
    using assms(2) by (simp add: find_None_set set_js_sort)
  have f: "find (\<lambda>job. job_id job = job_id c) ?jobs = Some u"
    using assms by (intro find_by_id_distinct) (simp_all add: distinct_js_sort set_js_sort)
  show ?thesis
    using assms(1,6)
    by (simp add: fetchJobs_success n f checkFinished_def action_defs completionLog_def)
qed

lemma fetchJobs_effects_seen_None:
  "snd (snd (fetchJobs getTime None (Resolved (Response True (Some fetched))) s))
         = [Fetch GET JOBS_API NoBody]"
  by (simp add: fetchJobs_success checkFinished_def action_defs split: option.splits)

text \<open>
  Claim C3. The tracked job \<open>c\<close> is active, a job \<open>u\<close> with the same id is in the fetched
  list with status FINISHED or FAILED, and no job of the list is a candidate. Then the poll
  ends normally with the current job \<open>null\<close>; a second poll that receives the same list
  ends normally, leaves the current job \<open>null\<close> and the whole state as the first poll left
  it. When the ids of the list are unique, the first poll logs the completion line once,
  and a second poll that sees the cleared current job does not log it again.
\<close>

theorem finished_job_cleared_once:
  assumes "outcome = Resolved (Response True (Some fetched))"
    and "isActiveStatus (status c)"
    and "u \<in> set fetched" and "job_id u = job_id c" and "isTerminalStatus (status u)"
    and "\<forall>j\<in>set fetched. \<not> isOngoing j"
    and "first = fetchJobs getTime (Some c) outcome s"
    and "second = fetchJobs getTime seen outcome (fst (snd first))"
  shows "fst first = Inr () \<and> currentJob (fst (snd first)) = None
       \<and> fst second = Inr () \<and> currentJob (fst (snd second)) = None
       \<and> fst (snd second) = fst (snd first)
       \<and> (distinct (map job_id fetched) \<longrightarrow>
            snd (snd first) = [Fetch GET JOBS_API NoBody, completionLog]
            \<and> (seen = currentJob (fst (snd first)) \<longrightarrow>
                 snd (snd second) = [Fetch GET JOBS_API NoBody]))"
proof -
  have n: "find isOngoing (js_sort (compareStart getTime) fetched) = None"
    using assms(6) by (simp add: find_None_set set_js_sort)
  have st: "fst first = Inr () \<and> currentJob (fst (snd first)) = None
       \<and> fst second = Inr () \<and> currentJob (fst (snd second)) = None
       \<and> fst (snd second) = fst (snd first)"
    using assms(1,7,8) by (simp add: fetchJobs_success n)
  have cur1: "currentJob (fst (snd first)) = None"
    using st by simp
  have fx1: "snd (snd first) = [Fetch GET JOBS_API NoBody, completionLog]"
    if "distinct (map job_id fetched)"
    using fetchJobs_effects_completed [OF assms(2) assms(6) that assms(3,4,5)] assms(1,7)
    by simp
  have fx2: "snd (snd second) = [Fetch GET JOBS_API NoBody]"
    if "seen = currentJob (fst (snd first))"
    using that cur1 assms(1,8) by (simp add: fetchJobs_effects_seen_None)
  show ?thesis using st fx1 fx2 by blast
qed

theorem finished_job_cleared_once_witness:
  "isActiveStatus (status job_started)
   \<and> job_started_finished \<in> set [job_started_finished, job_finished]
   \<and> job_id job_started_finished = job_id job_started
   \<and> isTerminalStatus (status job_started_finished)
   \<and> \<not> isOngoing job_started_finished \<and> \<not> isOngoing job_finished
   \<and> distinct (map job_id [job_started_finished, job_finished])
   \<and> currentJob tracking_started = Some job_started
   \<and> currentJob (fst (snd (fetchJobs sample_getTime (Some job_started)
        (Resolved (Response True (Some [job_started_finished, job_finished])))
        tracking_started))) = None
   \<and> snd (snd (fetchJobs sample_getTime (Some job_started)
        (Resolved (Response True (Some [job_started_finished, job_finished])))
        tracking_started)) = [Fetch GET JOBS_API NoBody, completionLog]
   \<and> snd (snd (fetchJobs sample_getTime None
        (Resolved (Response True (Some [job_started_finished, job_finished])))
        (fst (snd (fetchJobs sample_getTime (Some job_started)
           (Resolved (Response True (Some [job_started_finished, job_finished])))
           tracking_started))))) = [Fetch GET JOBS_API NoBody]"
proof -
  have a: "isActiveStatus (status job_started)"
    by (simp add: isActiveStatus_def job_started_def)
  have m: "job_started_finished \<in> set [job_started_finished, job_finished]"
    by simp
  have i: "job_id job_started_finished = job_id job_started"
    by (simp add: job_started_finished_def)
  have t: "isTerminalStatus (status job_started_finished)"
    by (simp add: isTerminalStatus_def job_started_finished_def)
  have n: "\<forall>j\<in>set [job_started_finished, job_finished]. \<not> isOngoing j"
    by (simp add: isOngoing_def isActiveStatus_def job_started_finished_def job_finished_def)
  have d: "distinct (map job_id [job_started_finished, job_finished])"
    by (simp add: job_started_finished_def job_started_def job_finished_def)
  have c: "currentJob tracking_started = Some job_started"
    by (simp add: tracking_started_def)
  show ?thesis
    using finished_job_cleared_once [OF refl a m i t n refl refl, of sample_getTime
        tracking_started None] a m i t n d c
    by simp
qed

section \<open>Failed polls\<close>

lemma fetchPrinterStatus_failed:
  "pollFailed outcome \<Longrightarrow>
   fetchPrinterStatus outcome now s =
     (Inr (), s,
      [Fetch GET PRINTER_STATUS_API NoBody,
       ConsoleError ''Error fetching printer status:'' (caught outcome ''Failed to fetch printer status'')])"
  by (cases outcome)
     (auto simp: pollFailed_def caught_def fetchPrinterStatus_def action_defs
       split: option.splits)

lemma fetchJobs_failed:
  "pollFailed outcome \<Longrightarrow>
   fetchJobs getTime seen outcome s =
     (Inr (), s,
      [Fetch GET JOBS_API NoBody,
       ConsoleError ''Error fetching jobs:'' (caught outcome ''Failed to fetch jobs'')])"
  by (cases outcome)
     (auto simp: pollFailed_def caught_def fetchJobs_def action_defs
       split: option.splits)

lemma fetchLastValidCommand_failed:
  "pollFailed outcome \<Longrightarrow>
   fetchLastValidCommand outcome s =
     (Inr (), s\<lparr>lastValidCommand := Some ''Error fetching command.''\<rparr>,
      [Fetch GET LAST_VALID_API NoBody,
       ConsoleError ''Error fetching last valid command:''
         (caught outcome ''Failed to fetch last valid command'')])"
  by (cases outcome)
     (auto simp: pollFailed_def caught_def fetchLastValidCommand_def action_defs
       split: option.splits)

text \<open>
  Claim C5, as amended. A poll fails when the request is rejected, the status is not a
  success or the body does not parse. A failed status poll and a failed job poll end
  normally, leave the whole state unchanged and produce the request and one console error,
  no alert. A failed poll of the last valid command ends normally with the request and one
  console error, no alert, and replaces \<open>lastValidCommand\<close> by the text
  \<open>Error fetching command.\<close>, leaving the other slices unchanged.
\<close>

theorem failed_poll_effects:
  assumes "pollFailed statusOutcome" and "pollFailed jobsOutcome" and "pollFailed lastOutcome"
  shows "fetchPrinterStatus statusOutcome now s =
           (Inr (), s,
            [Fetch GET PRINTER_STATUS_API NoBody,
             ConsoleError ''Error fetching printer status:''
               (caught statusOutcome ''Failed to fetch printer status'')])
       \<and> fetchJobs getTime seen jobsOutcome s =
           (Inr (), s,
            [Fetch GET JOBS_API NoBody,
             ConsoleError ''Error fetching jobs:'' (caught jobsOutcome ''Failed to fetch jobs'')])
       \<and> fetchLastValidCommand lastOutcome s =
           (Inr (), s\<lparr>lastValidCommand := Some ''Error fetching command.''\<rparr>,
            [Fetch GET LAST_VALID_API NoBody,
             ConsoleError ''Error fetching last valid command:''
               (caught lastOutcome ''Failed to fetch last valid command'')])"
  using assms
  by (simp add: fetchPrinterStatus_failed fetchJobs_failed fetchLastValidCommand_failed)

theorem failed_poll_effects_witness:
  "pollFailed (Rejected :: PrinterStatus fetch_outcome)
   \<and> pollFailed (Resolved (Response False None) :: Job list fetch_outcome)
   \<and> pollFailed (Resolved (Response True None) :: LastValid fetch_outcome)
   \<and> fetchPrinterStatus Rejected ''10:00:00'' tracking_started =
        (Inr (), tracking_started,
         [Fetch GET PRINTER_STATUS_API NoBody,
          ConsoleError ''Error fetching printer status:'' (TypeError ''Failed to fetch'')])
   \<and> fetchJobs sample_getTime None (Resolved (Response False None)) tracking_started =
        (Inr (), tracking_started,
         [Fetch GET JOBS_API NoBody,
          ConsoleError ''Error fetching jobs:'' (Error ''Failed to fetch jobs'')])
   \<and> fetchLastValidCommand (Resolved (Response True None)) tracking_started =
        (Inr (), tracking_started\<lparr>lastValidCommand := Some ''Error fetching command.''\<rparr>,
         [Fetch GET LAST_VALID_API NoBody,
          ConsoleError ''Error fetching last valid command:'' (SyntaxError ''Unexpected token'')])"
proof -
  have a: "pollFailed (Rejected :: PrinterStatus fetch_outcome)"
    by (simp add: pollFailed_def)
  have b: "pollFailed (Resolved (Response False None) :: Job list fetch_outcome)"
    by (simp add: pollFailed_def)
  have c: "pollFailed (Resolved (Response True None) :: LastValid fetch_outcome)"
    by (simp add: pollFailed_def)
  have d: "caught (Rejected :: PrinterStatus fetch_outcome) ''Failed to fetch printer status''
             = TypeError ''Failed to fetch''"
    by (simp add: caught_def)
  have e: "caught (Resolved (Response False None) :: Job list fetch_outcome) ''Failed to fetch jobs''
             = Error ''Failed to fetch jobs''"
    by (simp add: caught_def)
  have f: "caught (Resolved (Response True None) :: LastValid fetch_outcome)
             ''Failed to fetch last valid command'' = SyntaxError ''Unexpected token''"
    by (simp add: caught_def)
  show ?thesis
    using failed_poll_effects [OF a b c, of "''10:00:00''" tracking_started sample_getTime None]
      a b c
    unfolding d e f by blast
qed

text \<open>
  The claim as written fails for the poll of the last valid command: on a fresh component
  a rejected request changes \<open>lastValidCommand\<close> from \<open>null\<close> to the error text, so the
  state slice does not stay unchanged.
\<close>

theorem failed_last_valid_poll_changes_state:
  "pollFailed (Rejected :: LastValid fetch_outcome)
   \<and> lastValidCommand initial_dashboard = None
   \<and> lastValidCommand (fst (snd (fetchLastValidCommand Rejected initial_dashboard)))
       = Some ''Error fetching command.''
   \<and> fst (snd (fetchLastValidCommand Rejected initial_dashboard)) \<noteq> initial_dashboard"
proof -
  have p: "pollFailed (Rejected :: LastValid fetch_outcome)"
    by (simp add: pollFailed_def)
  have l: "lastValidCommand initial_dashboard = None"
    by (simp add: initial_dashboard_def)
  have r: "lastValidCommand (fst (snd (fetchLastValidCommand Rejected initial_dashboard)))
       = Some ''Error fetching command.''"
    by (simp add: fetchLastValidCommand_failed [OF p])
  have "fst (snd (fetchLastValidCommand Rejected initial_dashboard)) \<noteq> initial_dashboard"
    using l r by (metis option.distinct(1))
  then show ?thesis using p l r by simp
qed

section \<open>Enablement of the control buttons\<close>

text \<open>
  Claim C6. With a status loaded the view shows the four buttons; pause is enabled iff
  printing and not paused, continue iff paused, cancel iff printing or paused, preheat
  always. Two statuses with the same \<open>printing\<close> and \<open>paused\<close> flags give the same
  \<open>disabled\<close> properties. In particular printing and not paused gives pause enabled,
  continue disabled, cancel enabled; not printing and paused gives pause disabled,
  continue enabled, cancel enabled.
\<close>

theorem control_buttons_enablement:
  "controlButtons None = []
   \<and> map label (controlButtons (Some p))
       = [''Pause Print'', ''Preheat Nozzle'', ''Continue Print'', ''Cancel Print'']
   \<and> enabled ''Pause Print'' (Some p) = Some (printing p \<and> \<not> paused p)
   \<and> enabled ''Continue Print'' (Some p) = Some (paused p)
   \<and> enabled ''Cancel Print'' (Some p) = Some (printing p \<or> paused p)
   \<and> enabled ''Preheat Nozzle'' (Some p) = Some True
   \<and> (printing p = printing q \<and> paused p = paused q \<longrightarrow>
        map disabled (controlButtons (Some p)) = map disabled (controlButtons (Some q)))
   \<and> (printing p \<and> \<not> paused p \<longrightarrow>
        enabled ''Pause Print'' (Some p) = Some True
        \<and> enabled ''Continue Print'' (Some p) = Some False
        \<and> enabled ''Cancel Print'' (Some p) = Some True)
   \<and> (\<not> printing p \<and> paused p \<longrightarrow>
        enabled ''Pause Print'' (Some p) = Some False
        \<and> enabled ''Continue Print'' (Some p) = Some True
        \<and> enabled ''Cancel Print'' (Some p) = Some True)"
proof -
  have l: "map label (controlButtons (Some p))
       = [''Pause Print'', ''Preheat Nozzle'', ''Continue Print'', ''Cancel Print'']"
    by (simp add: controlButtons_def)
  have e1: "enabled ''Pause Print'' (Some p) = Some (printing p \<and> \<not> paused p)"
    by (simp add: controlButtons_def enabled_def)
  have e2: "enabled ''Continue Print'' (Some p) = Some (paused p)"
    by (simp add: controlButtons_def enabled_def)
  have e3: "enabled ''Cancel Print'' (Some p) = Some (printing p \<or> paused p)"
    by (simp add: controlButtons_def enabled_def)
  have e4: "enabled ''Preheat Nozzle'' (Some p) = Some True"
    by (simp add: controlButtons_def enabled_def)
  have f: "map disabled (controlButtons (Some p)) = map disabled (controlButtons (Some q))"
    if "printing p = printing q \<and> paused p = paused q"
    using that by (simp add: controlButtons_def)
  have n: "controlButtons None = []"
    by (simp add: controlButtons_def)
  show ?thesis
    unfolding e1 e2 e3 e4 using l f n by simp
qed

theorem control_buttons_enablement_witness:
  "printing status_printing \<and> \<not> paused status_printing
   \<and> enabled ''Pause Print'' (Some status_printing) = Some True
   \<and> enabled ''Continue Print'' (Some status_printing) = Some False
   \<and> enabled ''Cancel Print'' (Some status_printing) = Some True
   \<and> \<not> printing status_paused \<and> paused status_paused
   \<and> enabled ''Pause Print'' (Some status_paused) = Some False
   \<and> enabled ''Continue Print'' (Some status_paused) = Some True
   \<and> enabled ''Cancel Print'' (Some status_paused) = Some True
   \<and> map disabled (controlButtons (Some status_printing))
       = map disabled (controlButtons (Some (status_printing\<lparr>nozzle_temperature := 25\<rparr>)))"
proof -
  have a: "printing status_printing \<and> \<not> paused status_printing"
    by (simp add: status_printing_def)
  have b: "\<not> printing status_paused \<and> paused status_paused"
    by (simp add: status_paused_def)
  have c: "printing status_printing = printing (status_printing\<lparr>nozzle_temperature := 25\<rparr>)
           \<and> paused status_printing = paused (status_printing\<lparr>nozzle_temperature := 25\<rparr>)"
    by simp
  show ?thesis
    using control_buttons_enablement [of status_printing "status_printing\<lparr>nozzle_temperature := 25\<rparr>"]
      control_buttons_enablement [of status_paused status_paused] a b c
    by blast
qed

section \<open>Failed commands, ratings and manual commands\<close>

lemma sendCommand_failed:
  "requestFailed post \<Longrightarrow>
   sendCommand url msg post refresh now s =
     (Inr (), s,
      [Fetch POST url NoBody,
       ConsoleError ''Error sending command:'' (caught post ''Command failed''),
       Alert ''Command failed. Check logs.''])"
  by (cases post)
     (auto simp: requestFailed_def caught_def sendCommand_def action_defs)

text \<open>
  Claim C9. When the POST of a command fails (the request is rejected or the status is not
  a success), \<open>sendCommand\<close> ends normally, so nothing is thrown to the caller, the state
  is unchanged, and the trace is the request, a console error and the alert
  \<open>Command failed. Check logs.\<close>; no status poll is started. For the pause command in
  particular \<open>printerData\<close>, and with it \<open>printerData.paused\<close>, is unchanged.
\<close>

theorem failed_pause_leaves_state:
  assumes "requestFailed post"
  shows "sendCommand PAUSE_PRINT_API ''Print paused.'' post refresh now s =
           (Inr (), s,
            [Fetch POST PAUSE_PRINT_API NoBody,
             ConsoleError ''Error sending command:'' (caught post ''Command failed''),
             Alert ''Command failed. Check logs.''])
       \<and> printerData (fst (snd (sendCommand PAUSE_PRINT_API ''Print paused.'' post refresh now s)))
           = printerData s
       \<and> fst (sendCommand url msg post refresh now s) = Inr ()
       \<and> fst (snd (sendCommand url msg post refresh now s)) = s
       \<and> snd (snd (sendCommand url msg post refresh now s)) =
            [Fetch POST url NoBody,
             ConsoleError ''Error sending command:'' (caught post ''Command failed''),
             Alert ''Command failed. Check logs.'']"
  using assms by (simp add: sendCommand_failed)

theorem failed_pause_leaves_state_witness:
  "requestFailed (Resolved (Response False None) :: unit fetch_outcome)
   \<and> sendCommand PAUSE_PRINT_API ''Print paused.'' (Resolved (Response False None))
        (Resolved (Response True (Some status_paused))) ''10:00:00'' dashboard_printing =
           (Inr (), dashboard_printing,
            [Fetch POST PAUSE_PRINT_API NoBody,
             ConsoleError ''Error sending command:'' (Error ''Command failed''),
             Alert ''Command failed. Check logs.''])
   \<and> map_option paused (printerData (fst (snd (sendCommand PAUSE_PRINT_API ''Print paused.''
        (Resolved (Response False None)) (Resolved (Response True (Some status_paused)))
        ''10:00:00'' dashboard_printing)))) = Some False"
proof -
  have f: "requestFailed (Resolved (Response False None) :: unit fetch_outcome)"
    by (simp add: requestFailed_def)
  have c: "caught (Resolved (Response False None) :: unit fetch_outcome) ''Command failed''
             = Error ''Command failed''"
    by (simp add: caught_def)
  have p: "map_option paused (printerData dashboard_printing) = Some False"
    by (simp add: dashboard_printing_def status_printing_def)
  show ?thesis
    using failed_pause_leaves_state [OF f, where refresh = "Resolved (Response True (Some status_paused))"
        and now = "''10:00:00''" and s = dashboard_printing] f p
    unfolding c by simp
qed

lemma submitRating_no_job:
  "noJobId (jobId (rating s)) \<Longrightarrow>
   submitRating post s = (Inr (), s, [Alert ''No job selected for rating.''])"
  by (simp add: submitRating_def Let_def emit_def)

lemma submitRating_success:
  "\<not> noJobId (jobId (rating s)) \<Longrightarrow> \<not> requestFailed post \<Longrightarrow>
   submitRating post s =
     (Inr (),
      s\<lparr>rating := \<lparr>quality = [], speed = [], feedback = [], jobId = jobId (rating s)\<rparr>\<rparr>,
      [Fetch POST RATE_PRINT_API
         (RatingBody (jobId (rating s)) (quality (rating s)) (speed (rating s))
            (feedback (rating s))),
       Alert ''Print rating submitted successfully!''])"
  by (cases post)
     (auto simp: requestFailed_def submitRating_def Let_def action_defs)

lemma submitRating_failed:
  "\<not> noJobId (jobId (rating s)) \<Longrightarrow> requestFailed post \<Longrightarrow>
   submitRating post s =
     (Inr (), s,
      [Fetch POST RATE_PRINT_API
         (RatingBody (jobId (rating s)) (quality (rating s)) (speed (rating s))
            (feedback (rating s))),
       ConsoleError ''Error submitting print rating:'' (caught post ''Failed to submit rating''),
       Alert ''Failed to submit rating.''])"
  by (cases post)
     (auto simp: requestFailed_def caught_def submitRating_def Let_def action_defs)

text \<open>
  Claim C8. With \<open>rating.jobId\<close> \<open>null\<close>, \<open>submitRating\<close> sends no request, leaves the state
  unchanged and shows the alert \<open>No job selected for rating.\<close>. With a job id set, a
  request sent and answered with success, the quality, speed and feedback texts become
  empty, the job id is kept and nothing else changes.
\<close>

theorem submitRating_guard_and_reset:
  "(jobId (rating s) = None \<longrightarrow>
      submitRating post s = (Inr (), s, [Alert ''No job selected for rating.'']))
   \<and> (jobId (rating s) = Some i \<and> list_ex isRequest (snd (snd (submitRating post s)))
        \<and> \<not> requestFailed post \<longrightarrow>
      submitRating post s =
        (Inr (),
         s\<lparr>rating := \<lparr>quality = [], speed = [], feedback = [], jobId = Some i\<rparr>\<rparr>,
         [Fetch POST RATE_PRINT_API
            (RatingBody (Some i) (quality (rating s)) (speed (rating s)) (feedback (rating s))),
          Alert ''Print rating submitted successfully!'']))"
proof -
  have a: "submitRating post s = (Inr (), s, [Alert ''No job selected for rating.''])"
    if "jobId (rating s) = None"
    using that by (simp add: submitRating_no_job noJobId_def)
  have b: "submitRating post s =
        (Inr (),
         s\<lparr>rating := \<lparr>quality = [], speed = [], feedback = [], jobId = Some i\<rparr>\<rparr>,
         [Fetch POST RATE_PRINT_API
            (RatingBody (Some i) (quality (rating s)) (speed (rating s)) (feedback (rating s))),
          Alert ''Print rating submitted successfully!''])"
    if j: "jobId (rating s) = Some i"
      and r: "list_ex isRequest (snd (snd (submitRating post s)))"
      and ok: "\<not> requestFailed post"
  proof (cases "noJobId (jobId (rating s))")
    case True
    then have "\<not> list_ex isRequest (snd (snd (submitRating post s)))"
      by (simp add: submitRating_no_job isRequest_def)
    with r show ?thesis by simp
  next
    case False
    then show ?thesis
      using submitRating_success [OF False ok] j by simp
  qed
  show ?thesis using a b by blast
qed

theorem submitRating_guard_and_reset_witness:
  "jobId (rating dashboard_rating_unselected) = None
   \<and> submitRating post_ok dashboard_rating_unselected
        = (Inr (), dashboard_rating_unselected, [Alert ''No job selected for rating.''])
   \<and> jobId (rating dashboard_rating_selected) = Some 2
   \<and> list_ex isRequest (snd (snd (submitRating post_ok dashboard_rating_selected)))
   \<and> \<not> requestFailed post_ok
   \<and> submitRating post_ok dashboard_rating_selected =
        (Inr (),
         dashboard_rating_selected\<lparr>rating := \<lparr>quality = [], speed = [], feedback = [], jobId = Some 2\<rparr>\<rparr>,
         [Fetch POST RATE_PRINT_API (RatingBody (Some 2) ''8'' ''7'' ''clean walls''),
          Alert ''Print rating submitted successfully!''])"
proof -
  have a: "jobId (rating dashboard_rating_unselected) = None"
    by (simp add: dashboard_rating_unselected_def)
  have b: "jobId (rating dashboard_rating_selected) = Some 2"
    by (simp add: dashboard_rating_selected_def)
  have ok: "\<not> requestFailed post_ok"
    by (simp add: requestFailed_def post_ok_def)
  have nj: "\<not> noJobId (jobId (rating dashboard_rating_selected))"
    by (simp add: b noJobId_def)
  have r: "list_ex isRequest (snd (snd (submitRating post_ok dashboard_rating_selected)))"
    by (simp add: submitRating_success [OF nj ok] isRequest_def)
  have q: "quality (rating dashboard_rating_selected) = ''8''
         \<and> speed (rating dashboard_rating_selected) = ''7''
         \<and> feedback (rating dashboard_rating_selected) = ''clean walls''"
    by (simp add: dashboard_rating_selected_def)
  show ?thesis
    using submitRating_guard_and_reset [where s = dashboard_rating_unselected and post = post_ok]
      submitRating_guard_and_reset [where s = dashboard_rating_selected and i = 2 and post = post_ok] a b ok r q
    by simp
qed

lemma trim_empty_iff: "trim str = [] \<longleftrightarrow> list_all isWhiteSpace str"
proof
  assume "trim str = []"
  then have e: "\<forall>c\<in>set (dropWhile isWhiteSpace str). isWhiteSpace c"
    by (simp add: trim_def)
  have "dropWhile isWhiteSpace str = []"
  proof (rule ccontr)
    assume n: "dropWhile isWhiteSpace str \<noteq> []"
    then have "\<not> isWhiteSpace (hd (dropWhile isWhiteSpace str))"
      by (rule hd_dropWhile)
    moreover have "hd (dropWhile isWhiteSpace str) \<in> set (dropWhile isWhiteSpace str)"
      using n by simp
    ultimately show False using e by blast
  qed
  then show "list_all isWhiteSpace str"
    by (simp add: list_all_iff)
next
  assume "list_all isWhiteSpace str"
  then have "dropWhile isWhiteSpace str = []"
    by (auto simp: list_all_iff dest: set_dropWhileD)
  then show "trim str = []"
    by (auto simp: trim_def dest: set_dropWhileD)
qed

lemma submitNextValidCommand_blank:
  "list_all isWhiteSpace (nextValidCommand s) \<Longrightarrow>
   submitNextValidCommand post s = (Inr (), s, [Alert ''Please enter a valid command.''])"
  by (simp add: submitNextValidCommand_def trim_empty_iff emit_def)

lemma submitNextValidCommand_failed:
  "\<not> list_all isWhiteSpace (nextValidCommand s) \<Longrightarrow> requestFailed post \<Longrightarrow>
   submitNextValidCommand post s =
     (Inr (), s,
      [Fetch POST NEXT_VALID_API (CommandBody (nextValidCommand s)),
       ConsoleError ''Error submitting next valid command:''
         (caught post ''Failed to submit next valid command''),
       Alert ''Failed to submit next valid command.''])"
  by (cases post)
     (auto simp: requestFailed_def caught_def submitNextValidCommand_def trim_empty_iff
        action_defs)

lemma submitNextValidCommand_success:
  "\<not> list_all isWhiteSpace (nextValidCommand s) \<Longrightarrow> \<not> requestFailed post \<Longrightarrow>
   submitNextValidCommand post s =
     (Inr (), s\<lparr>nextValidCommand := []\<rparr>,
      [Fetch POST NEXT_VALID_API (CommandBody (nextValidCommand s)),
       Alert ''Next valid command submitted successfully!''])"
  by (cases post)
     (auto simp: requestFailed_def submitNextValidCommand_def trim_empty_iff action_defs)

text \<open>
  Claim C10. When the command text is empty or white space only, \<open>submitNextValidCommand\<close>
  sends no request, leaves the state unchanged and shows the alert
  \<open>Please enter a valid command.\<close>. Otherwise a failed POST leaves the state unchanged
  and a successful one resets the input to the empty string; the state changes only
  after a request was sent and answered with success.
\<close>

theorem submitNextValidCommand_guard_and_reset:
  "(list_all isWhiteSpace (nextValidCommand s) \<longrightarrow>
      submitNextValidCommand post s = (Inr (), s, [Alert ''Please enter a valid command.'']))
   \<and> (\<not> list_all isWhiteSpace (nextValidCommand s) \<and> requestFailed post \<longrightarrow>
      submitNextValidCommand post s =
        (Inr (), s,
         [Fetch POST NEXT_VALID_API (CommandBody (nextValidCommand s)),
          ConsoleError ''Error submitting next valid command:''
            (caught post ''Failed to submit next valid command''),
          Alert ''Failed to submit next valid command.'']))
   \<and> (\<not> list_all isWhiteSpace (nextValidCommand s) \<and> \<not> requestFailed post \<longrightarrow>
      submitNextValidCommand post s =
        (Inr (), s\<lparr>nextValidCommand := []\<rparr>,
         [Fetch POST NEXT_VALID_API (CommandBody (nextValidCommand s)),
          Alert ''Next valid command submitted successfully!'']))
   \<and> (fst (snd (submitNextValidCommand post s)) \<noteq> s \<longrightarrow>
        \<not> requestFailed post
        \<and> list_ex isRequest (snd (snd (submitNextValidCommand post s)))
        \<and> fst (snd (submitNextValidCommand post s)) = s\<lparr>nextValidCommand := []\<rparr>)"
proof -
  have d: "\<not> requestFailed post
        \<and> list_ex isRequest (snd (snd (submitNextValidCommand post s)))
        \<and> fst (snd (submitNextValidCommand post s)) = s\<lparr>nextValidCommand := []\<rparr>"
    if ch: "fst (snd (submitNextValidCommand post s)) \<noteq> s"
  proof -
    have w: "\<not> list_all isWhiteSpace (nextValidCommand s)"
      using ch submitNextValidCommand_blank [of s post] by auto
    have ok: "\<not> requestFailed post"
      using ch submitNextValidCommand_failed [OF w, of post] by auto
    show ?thesis
      using ok by (simp add: submitNextValidCommand_success [OF w ok] isRequest_def)
  qed
  show ?thesis
    using d submitNextValidCommand_blank [of s post] submitNextValidCommand_failed [of s post]
      submitNextValidCommand_success [of s post]
    by blast
qed

theorem submitNextValidCommand_guard_and_reset_witness:
  "list_all isWhiteSpace (nextValidCommand dashboard_command_blank)
   \<and> submitNextValidCommand post_ok dashboard_command_blank
        = (Inr (), dashboard_command_blank, [Alert ''Please enter a valid command.''])
   \<and> \<not> list_all isWhiteSpace (nextValidCommand dashboard_command_G28)
   \<and> requestFailed (Rejected :: unit fetch_outcome)
   \<and> fst (snd (submitNextValidCommand Rejected dashboard_command_G28)) = dashboard_command_G28
   \<and> \<not> requestFailed post_ok
   \<and> fst (snd (submitNextValidCommand post_ok dashboard_command_G28))
        = dashboard_command_G28\<lparr>nextValidCommand := []\<rparr>
   \<and> fst (snd (submitNextValidCommand post_ok dashboard_command_G28)) \<noteq> dashboard_command_G28
   \<and> list_ex isRequest (snd (snd (submitNextValidCommand post_ok dashboard_command_G28)))"
proof -
  have a: "list_all isWhiteSpace (nextValidCommand dashboard_command_blank)"
    by (simp add: dashboard_command_blank_def isWhiteSpace_def)
  have b: "\<not> list_all isWhiteSpace (nextValidCommand dashboard_command_G28)"
    by (simp add: dashboard_command_G28_def isWhiteSpace_def)
  have f: "requestFailed (Rejected :: unit fetch_outcome)"
    by (simp add: requestFailed_def)
  have ok: "\<not> requestFailed post_ok"
    by (simp add: requestFailed_def post_ok_def)
  have ne: "dashboard_command_G28\<lparr>nextValidCommand := []\<rparr> \<noteq> dashboard_command_G28"
  proof
    assume "dashboard_command_G28\<lparr>nextValidCommand := []\<rparr> = dashboard_command_G28"
    then have "nextValidCommand (dashboard_command_G28\<lparr>nextValidCommand := []\<rparr>)
                = nextValidCommand dashboard_command_G28"
      by simp
    then show False by (simp add: dashboard_command_G28_def)
  qed
  have r1: "submitNextValidCommand post_ok dashboard_command_blank
        = (Inr (), dashboard_command_blank, [Alert ''Please enter a valid command.''])"
    using submitNextValidCommand_guard_and_reset [of dashboard_command_blank post_ok] a
    by blast
  have r2: "fst (snd (submitNextValidCommand Rejected dashboard_command_G28)) = dashboard_command_G28"
    using submitNextValidCommand_guard_and_reset [of dashboard_command_G28 Rejected] b f
    by (metis fst_conv snd_conv)
  have r3: "submitNextValidCommand post_ok dashboard_command_G28 =
        (Inr (), dashboard_command_G28\<lparr>nextValidCommand := []\<rparr>,
         [Fetch POST NEXT_VALID_API (CommandBody (nextValidCommand dashboard_command_G28)),
          Alert ''Next valid command submitted successfully!''])"
    using submitNextValidCommand_guard_and_reset [of dashboard_command_G28 post_ok] b ok
    by blast
  have r4: "list_ex isRequest (snd (snd (submitNextValidCommand post_ok dashboard_command_G28)))"
    unfolding r3 by (simp add: isRequest_def)
  have r5: "fst (snd (submitNextValidCommand post_ok dashboard_command_G28))
        = dashboard_command_G28\<lparr>nextValidCommand := []\<rparr>"
    unfolding r3 by simp
  show ?thesis
    using a b f ok r1 r2 r4 r5 ne by metis
qed

section \<open>Formatted durations\<close>

lemma digit_char_props:
  assumes "d < 10"
  shows "is_digit (digit_char d) \<and> digit_value (digit_char d) = d"
proof -
  have "d \<in> {0, 1, 2, 3, 4, 5, 6, 7, 8, 9}"
    using assms by auto
  then show ?thesis
    by (auto simp: digit_char_def is_digit_def digit_value_def)
qed

lemma decimal_value_snoc:
  "decimal_value (str @ [c]) = 10 * decimal_value str + digit_value c"
  by (simp add: decimal_value_def)

lemma digits_props:
  "list_all is_digit (digits n) \<and> decimal_value (digits n) = n \<and> digits n \<noteq> []"
proof (induction n rule: digits.induct)
  case (1 n)
  show ?case
  proof (cases "n < 10")
    case True
    then show ?thesis
      using digit_char_props [of n]
      by (simp add: digits.simps [of n] decimal_value_def)
  next
    case False
    then show ?thesis
      using 1 digit_char_props [of "n mod 10"]
      by (simp add: digits.simps [of n] decimal_value_snoc)
  qed
qed

lemma length_digits_small:
  assumes "n < 100"
  shows "length (digits n) \<le> 2"
proof -
  have "n div 10 < 10" using assms by simp
  then have "length (digits (n div 10)) = 1"
    by (simp add: digits.simps [of "n div 10"])
  then show ?thesis
    by (simp add: digits.simps [of n])
qed

lemma decimal_value_zeros: "decimal_value (replicate k CHR ''0'' @ str) = decimal_value str"
proof -
  have "foldl (\<lambda>acc c. 10 * acc + digit_value c) 0 (replicate k CHR ''0'') = 0"
    by (induction k) (simp_all add: digit_value_def)
  then show ?thesis
    by (simp add: decimal_value_def)
qed

lemma padStart_digits:
  "list_all is_digit (padStart 2 CHR ''0'' (digits n))
   \<and> decimal_value (padStart 2 CHR ''0'' (digits n)) = n
   \<and> 2 \<le> length (padStart 2 CHR ''0'' (digits n))
   \<and> (n < 100 \<longrightarrow> length (padStart 2 CHR ''0'' (digits n)) = 2)"
proof -
  have z: "is_digit CHR ''0''"
    by (simp add: is_digit_def)
  have a: "list_all is_digit (padStart 2 CHR ''0'' (digits n))"
    using digits_props [of n] z by (auto simp: padStart_def list_all_iff)
  have b: "decimal_value (padStart 2 CHR ''0'' (digits n)) = n"
    using digits_props [of n] by (simp add: padStart_def decimal_value_zeros)
  have c: "2 \<le> length (padStart 2 CHR ''0'' (digits n))"
    by (simp add: padStart_def)
  have d: "length (padStart 2 CHR ''0'' (digits n)) = 2" if "n < 100"
    using length_digits_small [OF that] by (simp add: padStart_def)
  show ?thesis using a b c d by blast
qed

lemma minutes_below_60: "(x::int) < 3600 \<Longrightarrow> x div 60 < 60"
  by linarith

lemma formatDuration_positive:
  assumes "0 < s"
  shows "formatDuration (Some s) =
           padStart 2 CHR ''0'' (digits (nat (s div 3600))) @ '':'' @
           padStart 2 CHR ''0'' (digits (nat (s mod 3600 div 60))) @ '':'' @
           padStart 2 CHR ''0'' (digits (nat (s mod 60)))"
proof -
  have r1: "js_rem s 3600 = s mod 3600" and r2: "js_rem s 60 = s mod 60"
    using assms by (simp_all add: js_rem_def)
  have n1: "\<not> s div 3600 < 0" and n2: "\<not> s mod 3600 div 60 < 0" and n3: "\<not> s mod 60 < 0"
    using assms by (simp_all add: pos_imp_zdiv_nonneg_iff)
  show ?thesis
    using assms by (simp add: formatDuration_def Let_def r1 r2 toString_def n1 n2 n3)
qed

text \<open>
  Claim C7. \<open>formatDuration\<close> of \<open>undefined\<close> and of 0 is \<open>N/A\<close>, of 3661 it is
  \<open>01:01:01\<close>. For a positive integer number of seconds up to \<open>Number.MAX_SAFE_INTEGER\<close>
  the result is three fields of decimal digits separated by colons: the hours with at
  least two digits, the minutes and the seconds with exactly two, and the fields denote
  \<open>s div 3600\<close>, \<open>s mod 3600 div 60\<close> and \<open>s mod 60\<close>.
\<close>

theorem formatDuration_fields:
  "formatDuration None = ''N/A''
   \<and> formatDuration (Some 0) = ''N/A''
   \<and> formatDuration (Some 3661) = ''01:01:01''
   \<and> (0 < s \<and> s \<le> MAX_SAFE_INTEGER \<longrightarrow>
        (\<exists>h m c. formatDuration (Some s) = h @ '':'' @ m @ '':'' @ c
           \<and> list_all is_digit h \<and> 2 \<le> length h \<and> int (decimal_value h) = s div 3600
           \<and> list_all is_digit m \<and> length m = 2 \<and> int (decimal_value m) = s mod 3600 div 60
           \<and> list_all is_digit c \<and> length c = 2 \<and> int (decimal_value c) = s mod 60))"
proof -
  have a: "formatDuration None = ''N/A''" and b: "formatDuration (Some 0) = ''N/A''"
    by (simp_all add: formatDuration_def)
  have c: "formatDuration (Some 3661) = ''01:01:01''"
    by code_simp
  have d: "\<exists>h m c. formatDuration (Some s) = h @ '':'' @ m @ '':'' @ c
           \<and> list_all is_digit h \<and> 2 \<le> length h \<and> int (decimal_value h) = s div 3600
           \<and> list_all is_digit m \<and> length m = 2 \<and> int (decimal_value m) = s mod 3600 div 60
           \<and> list_all is_digit c \<and> length c = 2 \<and> int (decimal_value c) = s mod 60"
    if pos: "0 < s"
  proof -
    let ?h = "padStart 2 CHR ''0'' (digits (nat (s div 3600)))"
    let ?m = "padStart 2 CHR ''0'' (digits (nat (s mod 3600 div 60)))"
    let ?c = "padStart 2 CHR ''0'' (digits (nat (s mod 60)))"
    have h0: "0 \<le> s div 3600" using pos by (simp add: pos_imp_zdiv_nonneg_iff)
    have m0: "0 \<le> s mod 3600 div 60" by (simp add: pos_imp_zdiv_nonneg_iff)
    have m1: "nat (s mod 3600 div 60) < 100"
    proof -
      have "s mod 3600 < 3600" by simp
      then have "s mod 3600 div 60 < 60" by (rule minutes_below_60)
      then show ?thesis by simp
    qed
    have c1: "nat (s mod 60) < 100"
    proof -
      have "s mod 60 < 60" by simp
      then show ?thesis by simp
    qed
    have e: "formatDuration (Some s) = ?h @ '':'' @ ?m @ '':'' @ ?c"
      by (rule formatDuration_positive [OF pos])
    have fh: "list_all is_digit ?h \<and> 2 \<le> length ?h \<and> int (decimal_value ?h) = s div 3600"
      using padStart_digits [of "nat (s div 3600)"] h0 by simp
    have fm: "list_all is_digit ?m \<and> length ?m = 2 \<and> int (decimal_value ?m) = s mod 3600 div 60"
      using padStart_digits [of "nat (s mod 3600 div 60)"] m0 m1 by simp
    have fc: "list_all is_digit ?c \<and> length ?c = 2 \<and> int (decimal_value ?c) = s mod 60"
      using padStart_digits [of "nat (s mod 60)"] c1 by simp
    have "formatDuration (Some s) = ?h @ '':'' @ ?m @ '':'' @ ?c
           \<and> list_all is_digit ?h \<and> 2 \<le> length ?h \<and> int (decimal_value ?h) = s div 3600
           \<and> list_all is_digit ?m \<and> length ?m = 2 \<and> int (decimal_value ?m) = s mod 3600 div 60
           \<and> list_all is_digit ?c \<and> length ?c = 2 \<and> int (decimal_value ?c) = s mod 60"
      using e fh fm fc by (intro conjI) (rule e, simp_all only:)
    then show ?thesis
      by - (rule exI [of _ ?h], rule exI [of _ ?m], rule exI [of _ ?c])
  qed
  have g: "0 < s \<and> s \<le> MAX_SAFE_INTEGER \<longrightarrow>
        (\<exists>h m c. formatDuration (Some s) = h @ '':'' @ m @ '':'' @ c
           \<and> list_all is_digit h \<and> 2 \<le> length h \<and> int (decimal_value h) = s div 3600
           \<and> list_all is_digit m \<and> length m = 2 \<and> int (decimal_value m) = s mod 3600 div 60
           \<and> list_all is_digit c \<and> length c = 2 \<and> int (decimal_value c) = s mod 60)"
    by (rule impI, rule d, erule conjunct1)
  show ?thesis
    by (intro conjI) (rule a, rule b, rule c, rule g)
qed

theorem formatDuration_fields_witness:
  "(0::int) < 86399 \<and> 86399 \<le> MAX_SAFE_INTEGER
   \<and> formatDuration (Some 86399) = ''23:59:59''
   \<and> (\<exists>h m c. formatDuration (Some 86399) = h @ '':'' @ m @ '':'' @ c
           \<and> list_all is_digit h \<and> 2 \<le> length h \<and> int (decimal_value h) = 86399 div 3600
           \<and> list_all is_digit m \<and> length m = 2 \<and> int (decimal_value m) = 86399 mod 3600 div 60
           \<and> list_all is_digit c \<and> length c = 2 \<and> int (decimal_value c) = 86399 mod 60)"
proof -
  have b: "(0::int) < 86399 \<and> 86399 \<le> MAX_SAFE_INTEGER"
    by (simp add: MAX_SAFE_INTEGER_def)
  have e: "formatDuration (Some 86399) = ''23:59:59''"
    by code_simp
  note x = formatDuration_fields [of 86399, THEN conjunct2, THEN conjunct2, THEN conjunct2,
      THEN mp, OF b]
  show ?thesis
    by (intro conjI) (rule b [THEN conjunct1], rule b [THEN conjunct2], rule e, rule x)
qed

end
